theory Spec2Isabelle
  imports Main "HOL-Library.Word" "HOL-Library.Multiset"
begin

unbundle bit_operations_syntax

section \<open>Python Task Management API: a model of app.py\<close>

text \<open>
  The development follows \<^verbatim>\<open>src/app.py\<close>: the password hasher, the token decorator
  \<^verbatim>\<open>token_required\<close> and the four request handlers \<^verbatim>\<open>register\<close>, \<^verbatim>\<open>login\<close>,
  \<^verbatim>\<open>get_tasks\<close> and \<^verbatim>\<open>create_task\<close>. The libraries the handlers call (hashlib, PyJWT,
  sqlite3, Flask) are not part of the repository; each is given an executable model below,
  with its simplifications stated where it is defined.

  Conventions. A Python \<^verbatim>\<open>str\<close> is a \<^typ>\<open>string\<close>, read as its UTF-8 bytes (a
  lone surrogate included, in the way the subsection on Python strings describes). Python
  integers are \<^typ>\<open>int\<close>. Time is an \<^typ>\<open>int\<close>: seconds since the epoch, the
  resolution of both the token's \<^verbatim>\<open>exp\<close> claim and SQLite's \<^verbatim>\<open>CURRENT_TIMESTAMP\<close>; every
  handler receives the clock reading \<open>now\<close> of its request. An exception is a value of
  type \<open>exn\<close>; a handler returns its response together with the storage it leaves.
\<close>

subsection \<open>hashlib.sha256 and HMAC-SHA256\<close>

text \<open>
  Modelled from the spec: the Credential Hasher's one-way transform, which the source takes
  from \<^verbatim>\<open>hashlib.sha256\<close>. The definitions follow FIPS 180-4 (SHA-256) and RFC 2104 (HMAC)
  on 32-bit words; the round constants are written in decimal.
\<close>

type_synonym byte = "8 word"
type_synonym u32 = "32 word"
type_synonym hstate = "u32 \<times> u32 \<times> u32 \<times> u32 \<times> u32 \<times> u32 \<times> u32 \<times> u32"

definition rotr :: "nat \<Rightarrow> u32 \<Rightarrow> u32" where
  "rotr n x = drop_bit n x OR push_bit (32 - n) x"

definition Ch :: "u32 \<Rightarrow> u32 \<Rightarrow> u32 \<Rightarrow> u32" where
  "Ch x y z = (x AND y) XOR (NOT x AND z)"

definition Maj :: "u32 \<Rightarrow> u32 \<Rightarrow> u32 \<Rightarrow> u32" where
  "Maj x y z = (x AND y) XOR (x AND z) XOR (y AND z)"

definition Sigma0 :: "u32 \<Rightarrow> u32" where
  "Sigma0 x = rotr 2 x XOR rotr 13 x XOR rotr 22 x"

definition Sigma1 :: "u32 \<Rightarrow> u32" where
  "Sigma1 x = rotr 6 x XOR rotr 11 x XOR rotr 25 x"

definition sigma0 :: "u32 \<Rightarrow> u32" where
  "sigma0 x = rotr 7 x XOR rotr 18 x XOR drop_bit 3 x"

definition sigma1 :: "u32 \<Rightarrow> u32" where
  "sigma1 x = rotr 17 x XOR rotr 19 x XOR drop_bit 10 x"

definition round_constants :: "u32 list" where
  "round_constants =
     [1116352408, 1899447441, 3049323471, 3921009573, 961987163, 1508970993, 2453635748,
      2870763221, 3624381080, 310598401, 607225278, 1426881987, 1925078388, 2162078206,
      2614888103, 3248222580, 3835390401, 4022224774, 264347078, 604807628, 770255983,
      1249150122, 1555081692, 1996064986, 2554220882, 2821834349, 2952996808, 3210313671,
      3336571891, 3584528711, 113926993, 338241895, 666307205, 773529912, 1294757372,
      1396182291, 1695183700, 1986661051, 2177026350, 2456956037, 2730485921, 2820302411,
      3259730800, 3345764771, 3516065817, 3600352804, 4094571909, 275423344, 430227734,
      506948616, 659060556, 883997877, 958139571, 1322822218, 1537002063, 1747873779,
      1955562222, 2024104815, 2227730452, 2361852424, 2428436474, 2756734187, 3204031479,
      3329325298]"

definition initial_hash :: hstate where
  "initial_hash = (1779033703, 3144134277, 1013904242, 2773480762,
                   1359893119, 2600822924, 528734635, 1541459225)"

definition be32 :: "byte list \<Rightarrow> u32" where
  "be32 bs = foldl (\<lambda>a b. push_bit 8 a OR ucast b) 0 bs"

definition be_bytes :: "nat \<Rightarrow> 'a::len word \<Rightarrow> byte list" where
  "be_bytes k w = map (\<lambda>i. ucast (drop_bit (8 * i) w)) (rev [0..<k])"

definition pad :: "byte list \<Rightarrow> byte list" where
  "pad m = m @ [128] @ replicate ((119 - length m mod 64) mod 64) 0
             @ be_bytes 8 (word_of_nat (8 * length m) :: 64 word)"

definition block_words :: "byte list \<Rightarrow> u32 list" where
  "block_words b = map (\<lambda>i. be32 (take 4 (drop (4 * i) b))) [0..<16]"

definition schedule :: "u32 list \<Rightarrow> u32 list" where
  "schedule m =
     foldl (\<lambda>w t. w @ [sigma1 (w ! (t - 2)) + w ! (t - 7) + sigma0 (w ! (t - 15)) + w ! (t - 16)])
       m [16..<64]"

definition sha256_round :: "u32 list \<Rightarrow> hstate \<Rightarrow> nat \<Rightarrow> hstate" where
  "sha256_round w s t = (case s of (a, b, c, d, e, f, g, h) \<Rightarrow>
     let t1 = h + Sigma1 e + Ch e f g + round_constants ! t + w ! t;
         t2 = Sigma0 a + Maj a b c
     in (t1 + t2, a, b, c, d + t1, e, f, g))"

definition compress :: "hstate \<Rightarrow> byte list \<Rightarrow> hstate" where
  "compress s blk = (case (s, foldl (sha256_round (schedule (block_words blk))) s [0..<64]) of
     ((a, b, c, d, e, f, g, h), (a', b', c', d', e', f', g', h')) \<Rightarrow>
       (a + a', b + b', c + c', d + d', e + e', f + f', g + g', h + h'))"

definition sha256 :: "byte list \<Rightarrow> hstate" where
  "sha256 m = (let p = pad m in
     foldl (\<lambda>s i. compress s (take 64 (drop (64 * i) p))) initial_hash [0..<length p div 64])"

definition hex_digit :: "nat \<Rightarrow> char" where
  "hex_digit n = ''0123456789abcdef'' ! (n mod 16)"

definition hex32 :: "u32 \<Rightarrow> string" where
  "hex32 w = map (\<lambda>i. hex_digit (unat (drop_bit (4 * i) w AND 15))) [7, 6, 5, 4, 3, 2, 1, 0]"

definition hexdigest :: "hstate \<Rightarrow> string" where
  "hexdigest s = (case s of (a, b, c, d, e, f, g, h) \<Rightarrow>
     hex32 a @ hex32 b @ hex32 c @ hex32 d @ hex32 e @ hex32 f @ hex32 g @ hex32 h)"

definition digest :: "hstate \<Rightarrow> byte list" where
  "digest s = (case s of (a, b, c, d, e, f, g, h) \<Rightarrow>
     concat (map (be_bytes 4) [a, b, c, d, e, f, g, h]))"

definition to_bytes :: "string \<Rightarrow> byte list" where
  \<comment> \<open>the bytes a string holds\<close>
  "to_bytes s = map of_char s"

definition hmac_sha256 :: "byte list \<Rightarrow> byte list \<Rightarrow> hstate" where
  "hmac_sha256 key msg =
     (let k0 = (if length key > 64 then digest (sha256 key) else key);
          k = k0 @ replicate (64 - length k0) 0
      in sha256 (map (\<lambda>b. b XOR 92) k @ digest (sha256 (map (\<lambda>b. b XOR 54) k @ msg))))"

subsection \<open>Python strings\<close>

text \<open>
  A Python \<^verbatim>\<open>str\<close> is a sequence of code points, and a body parsed from JSON can hold a
  lone surrogate (\<^verbatim>\<open>"\ud800"\<close>), which \<^verbatim>\<open>str.encode()\<close> refuses. A \<^typ>\<open>string\<close> holds
  the code points in UTF-8, a surrogate in the three bytes the same scheme gives it
  (\<^verbatim>\<open>ED A0..BF 80..BF\<close>); \<open>code_points\<close> reads them back. \<open>str_nat\<close> is \<^verbatim>\<open>str(n)\<close>.
\<close>

definition lead_bits :: "char \<Rightarrow> nat" where
  "lead_bits a = (let b = of_char a :: nat in
     if b < 128 then b else if b < 224 then b mod 32 else if b < 240 then b mod 16 else b mod 8)"

definition seq_len :: "char \<Rightarrow> nat" where
  "seq_len a = (let b = of_char a :: nat in
     if b < 192 then 1 else if b < 224 then 2 else if b < 240 then 3 else 4)"

fun code_points :: "string \<Rightarrow> nat list" where
  "code_points [] = []"
| "code_points (a # cs) =
     foldl (\<lambda>v c. v * 64 + of_char c mod 64) (lead_bits a) (take (seq_len a - 1) cs)
       # code_points (drop (seq_len a - 1) cs)"

definition is_surrogate :: "nat \<Rightarrow> bool" where
  "is_surrogate cp \<longleftrightarrow> 55296 \<le> cp \<and> cp \<le> 57343"

definition encodable :: "string \<Rightarrow> bool" where
  \<comment> \<open>the strings that \<^verbatim>\<open>str.encode()\<close> accepts: no code point is a surrogate\<close>
  "encodable s \<longleftrightarrow> list_all (\<lambda>cp. \<not> is_surrogate cp) (code_points s)"


definition digit_char :: "nat \<Rightarrow> char" where
  "digit_char n = char_of (48 + n mod 10)"

fun str_nat :: "nat \<Rightarrow> string" where
  "str_nat n = (if n < 10 then [digit_char n] else str_nat (n div 10) @ [digit_char n])"

declare str_nat.simps [simp del]

definition hex4 :: "nat \<Rightarrow> string" where
  \<comment> \<open>the format \<^verbatim>\<open>%04x\<close>\<close>
  "hex4 n = map (\<lambda>i. hex_digit (n div 16 ^ i)) [3, 2, 1, 0]"

subsection \<open>Responses and exceptions\<close>

text \<open>
  \<^verbatim>\<open>jsonify\<close> builds the response body from a Python dictionary; \<open>json\<close> is the value
  it serialises, with the keys in the order the source writes them. A view function either
  returns a body with a status code (200 when the source gives none), or lets an exception
  escape, which Flask answers outside the handler.
\<close>

datatype json =
    JNull
  | JBool bool
  | JInt int
  | JStr string
  | JList "json list"
  | JObj "(string \<times> json) list"

datatype exn =
    IntegrityError
  | OperationalError string
  | TypeError string
  | KeyError string
  | UnicodeEncodeError nat nat nat

datatype outcome = Response json nat | Unhandled exn

definition str_exn :: "exn \<Rightarrow> string" where
  \<comment> \<open>\<^verbatim>\<open>str(e)\<close>. \<open>UnicodeEncodeError c i j\<close> is the error of the UTF-8 codec for the
      surrogates at positions \<open>i\<close> to \<open>j - 1\<close>, the first of them \<open>c\<close>.\<close>
  "str_exn e = (case e of
       IntegrityError \<Rightarrow> ''UNIQUE constraint failed''
     | OperationalError m \<Rightarrow> m
     | TypeError m \<Rightarrow> m
     | KeyError k \<Rightarrow> [CHR 0x27] @ k @ [CHR 0x27]
     | UnicodeEncodeError c i j \<Rightarrow>
         [CHR 0x27] @ ''utf-8'' @ [CHR 0x27] @ '' codec can'' @ [CHR 0x27] @ ''t encode ''
         @ (if j = i + 1
            then ''character '' @ [CHR 0x27, CHR 0x5C] @ ''u'' @ hex4 c @ [CHR 0x27]
                 @ '' in position '' @ str_nat i
            else ''characters in position '' @ str_nat i @ ''-'' @ str_nat (j - 1))
         @ '': surrogates not allowed'')"

subsection \<open>The password hasher\<close>

text \<open>
  \<^verbatim>\<open>hash_password\<close> (app.py, lines 77 to 79) is
  \<^verbatim>\<open>hashlib.sha256(password.encode()).hexdigest()\<close>. \<^verbatim>\<open>password.encode()\<close> raises
  \<^verbatim>\<open>UnicodeEncodeError\<close> at the first surrogate, reporting the run of surrogates that starts
  there. The source has no separate verification function: \<^verbatim>\<open>login\<close> (line 166) rejects
  the password when \<^verbatim>\<open>user['password_hash'] != hash_password(data['password'])\<close>.
  \<open>verify_password\<close> names the negation of that test, the \<^verbatim>\<open>verify(plaintext, digest)\<close>
  of the spec; it raises when \<^verbatim>\<open>hash_password\<close> does.
\<close>

definition encode :: "string \<Rightarrow> exn + byte list" where
  "encode s =
     (let cps = code_points s;
          i = length (takeWhile (\<lambda>cp. \<not> is_surrogate cp) cps)
      in if i = length cps then Inr (to_bytes s)
         else Inl (UnicodeEncodeError (cps ! i) i (i + length (takeWhile is_surrogate (drop i cps)))))"

definition hash_password :: "string \<Rightarrow> exn + string" where
  "hash_password password = (case encode password of
       Inl e \<Rightarrow> Inl e
     | Inr bytes \<Rightarrow> Inr (hexdigest (sha256 bytes)))"


subsection \<open>The request\<close>

text \<open>
  What the handlers read of \<^verbatim>\<open>flask.request\<close>: the \<^verbatim>\<open>Authorization\<close> header
  (\<^verbatim>\<open>request.headers.get('Authorization')\<close>, \<open>None\<close> when absent) and the parsed body
  (\<^verbatim>\<open>request.get_json()\<close>, \<open>None\<close> for a null body). A body is the key-value payload of
  sections 3 and 6 of the spec: a dictionary whose values are strings, as an association
  list read with \<^const>\<open>map_of\<close>. Bodies that are not dictionaries, and values that are
  not strings, are outside this model.
\<close>

record request =
  authorization :: "string option"
  json_body :: "(string \<times> string) list option"

definition truthy :: "string option \<Rightarrow> bool" where
  \<comment> \<open>Python truth of \<^verbatim>\<open>data.get(key)\<close>: \<^verbatim>\<open>None\<close> and the empty string are false.\<close>
  "truthy v = (case v of None \<Rightarrow> False | Some s \<Rightarrow> s \<noteq> [])"

definition get_default :: "(string \<times> string) list \<Rightarrow> string \<Rightarrow> string \<Rightarrow> string" where
  \<comment> \<open>\<^verbatim>\<open>data.get(key, default)\<close>: the default only when the key is absent.\<close>
  "get_default data k dflt = (case map_of data k of None \<Rightarrow> dflt | Some v \<Rightarrow> v)"

subsection \<open>sqlite3: the two tables and the statements the handlers execute\<close>

text \<open>
  Modelled from the spec: the relational row store (sqlite3), with the schema of
  \<^verbatim>\<open>init_db\<close> (app.py, lines 31 to 56). A table is the list of its rows in rowid order.
  \<^verbatim>\<open>INTEGER PRIMARY KEY AUTOINCREMENT\<close> gives a new row the successor of the largest id
  the table holds or has ever held (\<open>users_seq\<close>, \<open>tasks_seq\<close>: the table's entry in
  \<^verbatim>\<open>sqlite_sequence\<close>); ids are unbounded integers here. \<^verbatim>\<open>UNIQUE\<close> on
  \<^verbatim>\<open>users.username\<close> and \<^verbatim>\<open>users.email\<close> makes an insert raise
  \<^verbatim>\<open>sqlite3.IntegrityError\<close> and leaves the table as it was. \<^verbatim>\<open>CURRENT_TIMESTAMP\<close> is
  the clock reading \<open>now\<close>. Storage that cannot be used (the tables were never created,
  the file cannot be opened) is \<open>Unavailable\<close>: every statement raises
  \<^verbatim>\<open>sqlite3.OperationalError\<close> with the storage's message. The refusals of sqlite3 to
  bind a parameter (an integer outside 64 bits, a string that UTF-8 cannot encode) are
  failures inside the storage layer and are not modelled.
\<close>

record users_row =
  u_id :: int
  u_username :: string
  u_email :: string
  u_password_hash :: string
  u_created_at :: int

record tasks_row =
  t_id :: int
  t_title :: string
  t_description :: string
  t_status :: string
  t_priority :: string
  t_user_id :: int
  t_created_at :: int
  t_updated_at :: int

record database =
  users :: "users_row list"
  users_seq :: int
  tasks :: "tasks_row list"
  tasks_seq :: int

datatype storage = Unavailable string | Ready database

definition next_rowid :: "int list \<Rightarrow> int \<Rightarrow> int" where
  "next_rowid ids seq = foldr max ids seq + 1"

definition insert_user :: "string \<Rightarrow> string \<Rightarrow> string \<Rightarrow> int \<Rightarrow> storage \<Rightarrow> exn + storage" where
  \<comment> \<open>\<^verbatim>\<open>INSERT INTO users (username, email, password_hash) VALUES (?, ?, ?)\<close> and commit\<close>
  "insert_user username email password_hash now st = (case st of
       Unavailable m \<Rightarrow> Inl (OperationalError m)
     | Ready d \<Rightarrow>
         if \<exists>u \<in> set (users d). u_username u = username \<or> u_email u = email
         then Inl IntegrityError
         else
           let i = next_rowid (map u_id (users d)) (users_seq d)
           in Inr (Ready (d\<lparr>users := users d @
                 [\<lparr>u_id = i, u_username = username, u_email = email,
                   u_password_hash = password_hash, u_created_at = now\<rparr>],
                 users_seq := i\<rparr>)))"

definition select_user_by_email :: "string \<Rightarrow> storage \<Rightarrow> exn + users_row option" where
  \<comment> \<open>\<^verbatim>\<open>SELECT ... FROM users WHERE email = ?\<close>, \<^verbatim>\<open>fetchone()\<close>\<close>
  "select_user_by_email email st = (case st of
       Unavailable m \<Rightarrow> Inl (OperationalError m)
     | Ready d \<Rightarrow> Inr (find (\<lambda>u. u_email u = email) (users d)))"

definition insert_task ::
  "string \<Rightarrow> string \<Rightarrow> string \<Rightarrow> string \<Rightarrow> int \<Rightarrow> int \<Rightarrow> storage \<Rightarrow> exn + (storage \<times> int)" where
  \<comment> \<open>\<^verbatim>\<open>INSERT INTO tasks (title, description, status, priority, user_id) VALUES (?, ?, ?, ?, ?)\<close>
      and commit; the second component is \<^verbatim>\<open>cursor.lastrowid\<close>\<close>
  "insert_task title description status priority user_id now st = (case st of
       Unavailable m \<Rightarrow> Inl (OperationalError m)
     | Ready d \<Rightarrow>
         let i = next_rowid (map t_id (tasks d)) (tasks_seq d)
         in Inr (Ready (d\<lparr>tasks := tasks d @
               [\<lparr>t_id = i, t_title = title, t_description = description, t_status = status,
                 t_priority = priority, t_user_id = user_id, t_created_at = now,
                 t_updated_at = now\<rparr>],
               tasks_seq := i\<rparr>), i))"

definition select_task_by_id :: "int \<Rightarrow> storage \<Rightarrow> exn + tasks_row option" where
  \<comment> \<open>\<^verbatim>\<open>SELECT * FROM tasks WHERE id = ?\<close>, \<^verbatim>\<open>fetchone()\<close>\<close>
  "select_task_by_id i st = (case st of
       Unavailable m \<Rightarrow> Inl (OperationalError m)
     | Ready d \<Rightarrow> Inr (find (\<lambda>t. t_id t = i) (tasks d)))"

definition select_tasks_by_user :: "int \<Rightarrow> storage \<Rightarrow> exn + tasks_row list" where
  \<comment> \<open>\<^verbatim>\<open>SELECT * FROM tasks WHERE user_id = ? ORDER BY created_at DESC\<close>, \<^verbatim>\<open>fetchall()\<close>.
      SQL leaves the order of rows with equal \<^verbatim>\<open>created_at\<close> open; the model keeps
      them in rowid order.\<close>
  "select_tasks_by_user user_id st = (case st of
       Unavailable m \<Rightarrow> Inl (OperationalError m)
     | Ready d \<Rightarrow>
         Inr (sort_key (\<lambda>t. - t_created_at t) (filter (\<lambda>t. t_user_id t = user_id) (tasks d))))"

subsection \<open>PyJWT: encode and decode\<close>

text \<open>
  Modelled from the spec: the Token Service (section 4.2), which the source takes from
  PyJWT (\<^verbatim>\<open>jwt.encode(payload, key)\<close>, \<^verbatim>\<open>jwt.decode(token, key, algorithms=['HS256'])\<close>).
  A token is three segments joined by dots: the HS256 header, the payload and the
  HMAC-SHA256 signature of the first two under the key. \<open>jwt_decode\<close> fails with
  \<open>DecodeError\<close> on a token that does not parse, with \<open>InvalidSignatureError\<close> when the
  signature is not the one the key gives, and with \<open>ExpiredSignatureError\<close> when the
  \<^verbatim>\<open>exp\<close> claim is not after \<open>now\<close>. Two simplifications: a payload is a dictionary of
  integer claims (the only kind the application issues), and the payload and signature
  segments are written in plain text (\<^verbatim>\<open>key=value;\<close> and hexadecimal) rather than
  base64url-encoded JSON.
\<close>

fun str_split :: "char \<Rightarrow> string \<Rightarrow> string list" where
  "str_split sep [] = [[]]"
| "str_split sep (c # cs) =
     (if c = sep then [] # str_split sep cs
      else (case str_split sep cs of [] \<Rightarrow> [[c]] | w # ws \<Rightarrow> (c # w) # ws))"

definition str_int :: "int \<Rightarrow> string" where
  "str_int i = (if i < 0 then CHR ''-'' # str_nat (nat (- i)) else str_nat (nat i))"

definition is_digit :: "char \<Rightarrow> bool" where
  "is_digit c \<longleftrightarrow> (48::nat) \<le> of_char c \<and> of_char c \<le> (57::nat)"

definition parse_nat :: "string \<Rightarrow> nat option" where
  "parse_nat s = (if s = [] \<or> \<not> list_all is_digit s then None
                  else Some (foldl (\<lambda>a c. 10 * a + (of_char c - 48)) 0 s))"

definition parse_int :: "string \<Rightarrow> int option" where
  "parse_int s = (case s of
       [] \<Rightarrow> None
     | c # cs \<Rightarrow> if c = CHR ''-'' then map_option (\<lambda>n. - int n) (parse_nat cs)
                 else map_option int (parse_nat s))"

definition encode_claims :: "(string \<times> int) list \<Rightarrow> string" where
  "encode_claims payload = concat (map (\<lambda>(k, v). k @ ''='' @ str_int v @ '';'') payload)"

definition decode_claim :: "string \<Rightarrow> (string \<times> int) option" where
  "decode_claim field = (case str_split CHR ''='' field of
       [k, v] \<Rightarrow> map_option (Pair k) (parse_int v)
     | _ \<Rightarrow> None)"

definition decode_claims :: "string \<Rightarrow> (string \<times> int) list option" where
  "decode_claims s =
     (let fields = str_split CHR '';'' s
      in if last fields \<noteq> [] then None else those (map decode_claim (butlast fields)))"

definition claim_key :: "string \<Rightarrow> bool" where
  \<comment> \<open>a claim name that the plain-text payload segment can carry: it holds none of the
      separators\<close>
  "claim_key k \<longleftrightarrow> CHR ''='' \<notin> set k \<and> CHR '';'' \<notin> set k \<and> CHR ''.'' \<notin> set k"


datatype jwt_error = DecodeError | InvalidSignatureError | ExpiredSignatureError

definition jwt_header :: string where
  "jwt_header = ''eyJhbGciOiJIUzI1NiIsInR5cCI6IkpXVCJ9''"

definition jwt_sign :: "string \<Rightarrow> string \<Rightarrow> string" where
  "jwt_sign key signing_input = hexdigest (hmac_sha256 (to_bytes key) (to_bytes signing_input))"

definition jwt_encode :: "(string \<times> int) list \<Rightarrow> string \<Rightarrow> string" where
  "jwt_encode payload key =
     (let signing_input = jwt_header @ ''.'' @ encode_claims payload
      in signing_input @ ''.'' @ jwt_sign key signing_input)"

definition jwt_decode :: "string \<Rightarrow> string \<Rightarrow> int \<Rightarrow> jwt_error + (string \<times> int) list" where
  "jwt_decode token key now = (case str_split CHR ''.'' token of
       [header, payload_segment, signature] \<Rightarrow>
         if header \<noteq> jwt_header then Inl DecodeError
         else if signature \<noteq> jwt_sign key (header @ ''.'' @ payload_segment)
         then Inl InvalidSignatureError
         else (case decode_claims payload_segment of
                 None \<Rightarrow> Inl DecodeError
               | Some payload \<Rightarrow> (case map_of payload ''exp'' of
                     None \<Rightarrow> Inr payload
                   | Some expiry \<Rightarrow>
                       if expiry \<le> now then Inl ExpiredSignatureError else Inr payload))
     | _ \<Rightarrow> Inl DecodeError)"

subsection \<open>app.py: configuration and the token decorator\<close>

definition SECRET_KEY :: string where
  "SECRET_KEY = ''your-secret-key-change-in-production''"

definition message :: "string \<Rightarrow> json" where
  \<comment> \<open>\<^verbatim>\<open>jsonify({'message': text})\<close>\<close>
  "message text = JObj [(''message'', JStr text)]"

definition strip_bearer :: "string \<Rightarrow> string" where
  \<comment> \<open>lines 67 and 68: \<^verbatim>\<open>if token.startswith('Bearer '): token = token[7:]\<close>\<close>
  "strip_bearer token = (if take 7 token = ''Bearer '' then drop 7 token else token)"

definition token_required ::
  "(int \<Rightarrow> request \<Rightarrow> int \<Rightarrow> 's \<Rightarrow> outcome \<times> 's) \<Rightarrow> request \<Rightarrow> int \<Rightarrow> 's \<Rightarrow> outcome \<times> 's" where
  \<comment> \<open>lines 58 to 75; the bare \<^verbatim>\<open>except:\<close> catches the errors of \<^verbatim>\<open>jwt.decode\<close> and the
      \<^verbatim>\<open>KeyError\<close> of \<^verbatim>\<open>data['user_id']\<close> alike\<close>
  "token_required f req now st = (case authorization req of
       None \<Rightarrow> (Response (message ''Token is missing'') 401, st)
     | Some token \<Rightarrow>
         if token = [] then (Response (message ''Token is missing'') 401, st)
         else (case jwt_decode (strip_bearer token) SECRET_KEY now of
                 Inl e \<Rightarrow> (Response (message ''Token is invalid'') 401, st)
               | Inr data \<Rightarrow> (case map_of data ''user_id'' of
                     None \<Rightarrow> (Response (message ''Token is invalid'') 401, st)
                   | Some current_user_id \<Rightarrow> f current_user_id req now st)))"

definition authenticated_as :: "request \<Rightarrow> int \<Rightarrow> int \<Rightarrow> bool" where
  \<comment> \<open>the path of \<^verbatim>\<open>token_required\<close> that reaches line 74: the request presents a token
      that \<^verbatim>\<open>jwt.decode\<close> accepts at time \<open>now\<close> and whose payload names the user\<close>
  "authenticated_as req now current_user_id \<longleftrightarrow>
     (\<exists>token data. authorization req = Some token \<and> token \<noteq> []
        \<and> jwt_decode (strip_bearer token) SECRET_KEY now = Inr data
        \<and> map_of data ''user_id'' = Some current_user_id)"

subsection \<open>app.py: the handlers\<close>

definition issue_token :: "int \<Rightarrow> int \<Rightarrow> string" where
  \<comment> \<open>lines 132 to 135 and 170 to 173: the payload \<^verbatim>\<open>user_id\<close>, \<^verbatim>\<open>exp\<close> = now + 24 hours\<close>
  "issue_token user_id now = jwt_encode [(''user_id'', user_id), (''exp'', now + 86400)] SECRET_KEY"

definition user_dict :: "users_row \<Rightarrow> json" where
  "user_dict user = JObj [(''id'', JInt (u_id user)), (''username'', JStr (u_username user)),
                          (''email'', JStr (u_email user))]"

definition not_subscriptable :: exn where
  \<comment> \<open>subscripting the \<^verbatim>\<open>None\<close> that \<^verbatim>\<open>fetchone()\<close> returns when no row matches\<close>
  "not_subscriptable = TypeError ([CHR 0x27] @ ''NoneType'' @ [CHR 0x27] @ '' object is not subscriptable'')"

definition item :: "(string \<times> string) list \<Rightarrow> string \<Rightarrow> exn + string" where
  \<comment> \<open>\<^verbatim>\<open>data[key]\<close>\<close>
  "item data k = (case map_of data k of None \<Rightarrow> Inl (KeyError k) | Some v \<Rightarrow> Inr v)"

definition register_try ::
  "(string \<times> string) list \<Rightarrow> int \<Rightarrow> storage \<Rightarrow> (exn + outcome) \<times> storage" where
  \<comment> \<open>the body of the \<^verbatim>\<open>try\<close> of \<^verbatim>\<open>register\<close>, lines 115 to 145\<close>
  "register_try data now st =
     (case item data ''password'' of Inl e \<Rightarrow> (Inl e, st) | Inr password \<Rightarrow>
     (case hash_password password of Inl e \<Rightarrow> (Inl e, st) | Inr password_hash \<Rightarrow>
     (case item data ''username'' of Inl e \<Rightarrow> (Inl e, st) | Inr username \<Rightarrow>
     (case item data ''email'' of Inl e \<Rightarrow> (Inl e, st) | Inr email \<Rightarrow>
     (case insert_user username email password_hash now st of
        Inl e \<Rightarrow> (Inl e, st)
      | Inr st' \<Rightarrow>
        (case select_user_by_email email st' of
           Inl e \<Rightarrow> (Inl e, st')
         | Inr None \<Rightarrow> (Inl not_subscriptable, st')
         | Inr (Some user) \<Rightarrow>
             (Inr (Response (JObj [(''message'', JStr ''User created successfully''),
                                   (''token'', JStr (issue_token (u_id user) now)),
                                   (''user'', user_dict user)]) 201), st')))))))"

definition register :: "request \<Rightarrow> int \<Rightarrow> storage \<Rightarrow> outcome \<times> storage" where
  \<comment> \<open>lines 105 to 148; only \<^verbatim>\<open>sqlite3.IntegrityError\<close> is caught\<close>
  "register req now st = (case json_body req of
       None \<Rightarrow> (Response (message ''Username, email and password required'') 400, st)
     | Some data \<Rightarrow>
         if data = [] \<or> \<not> truthy (map_of data ''username'') \<or> \<not> truthy (map_of data ''email'')
            \<or> \<not> truthy (map_of data ''password'')
         then (Response (message ''Username, email and password required'') 400, st)
         else (case register_try data now st of
                 (Inr r, st') \<Rightarrow> (r, st')
               | (Inl e, st') \<Rightarrow>
                   if e = IntegrityError
                   then (Response (message ''Username or email already exists'') 400, st')
                   else (Unhandled e, st')))"

definition login_try :: "(string \<times> string) list \<Rightarrow> int \<Rightarrow> storage \<Rightarrow> exn + outcome" where
  \<comment> \<open>the body of the \<^verbatim>\<open>try\<close> of \<^verbatim>\<open>login\<close>, lines 159 to 183; it writes nothing. The
      \<^verbatim>\<open>or\<close> of line 166 evaluates \<^verbatim>\<open>hash_password\<close> only when a row was found.\<close>
  "login_try data now st =
     (case item data ''email'' of Inl e \<Rightarrow> Inl e | Inr email \<Rightarrow>
     (case select_user_by_email email st of
        Inl e \<Rightarrow> Inl e
      | Inr None \<Rightarrow> Inr (Response (message ''Invalid credentials'') 401)
      | Inr (Some user) \<Rightarrow>
        (case item data ''password'' of Inl e \<Rightarrow> Inl e | Inr password \<Rightarrow>
        (case hash_password password of Inl e \<Rightarrow> Inl e | Inr password_hash \<Rightarrow>
           if u_password_hash user \<noteq> password_hash
           then Inr (Response (message ''Invalid credentials'') 401)
           else Inr (Response (JObj [(''message'', JStr ''Login successful''),
                                     (''token'', JStr (issue_token (u_id user) now)),
                                     (''user'', user_dict user)]) 200)))))"

definition login :: "request \<Rightarrow> int \<Rightarrow> storage \<Rightarrow> outcome \<times> storage" where
  \<comment> \<open>lines 150 to 185; \<^verbatim>\<open>except Exception as e\<close> answers 500 with \<^verbatim>\<open>str(e)\<close>\<close>
  "login req now st = (case json_body req of
       None \<Rightarrow> (Response (message ''Email and password required'') 400, st)
     | Some data \<Rightarrow>
         if data = [] \<or> \<not> truthy (map_of data ''email'') \<or> \<not> truthy (map_of data ''password'')
         then (Response (message ''Email and password required'') 400, st)
         else (case login_try data now st of
                 Inr r \<Rightarrow> (r, st)
               | Inl e \<Rightarrow> (Response (message (str_exn e)) 500, st)))"

definition task_list_item :: "tasks_row \<Rightarrow> json" where
  \<comment> \<open>lines 201 to 208\<close>
  "task_list_item task = JObj [(''id'', JInt (t_id task)), (''title'', JStr (t_title task)),
       (''description'', JStr (t_description task)), (''status'', JStr (t_status task)),
       (''priority'', JStr (t_priority task)), (''created_at'', JInt (t_created_at task))]"

definition get_tasks :: "int \<Rightarrow> request \<Rightarrow> int \<Rightarrow> storage \<Rightarrow> outcome \<times> storage" where
  \<comment> \<open>lines 189 to 216, the function under the decorator\<close>
  "get_tasks current_user_id req now st = (case select_tasks_by_user current_user_id st of
       Inl e \<Rightarrow> (Response (JObj [(''error'', JStr (str_exn e))]) 500, st)
     | Inr task_rows \<Rightarrow>
         (Response (JObj [(''success'', JBool True),
                          (''tasks'', JList (map task_list_item task_rows)),
                          (''count'', JInt (int (length task_rows)))]) 200, st))"

definition task_dict :: "tasks_row \<Rightarrow> json" where
  \<comment> \<open>lines 250 to 256\<close>
  "task_dict task = JObj [(''id'', JInt (t_id task)), (''title'', JStr (t_title task)),
       (''description'', JStr (t_description task)), (''status'', JStr (t_status task)),
       (''priority'', JStr (t_priority task))]"

definition create_task_try ::
  "int \<Rightarrow> (string \<times> string) list \<Rightarrow> int \<Rightarrow> storage \<Rightarrow> (exn + outcome) \<times> storage" where
  \<comment> \<open>the body of the \<^verbatim>\<open>try\<close> of \<^verbatim>\<open>create_task\<close>, lines 228 to 257\<close>
  "create_task_try current_user_id data now st =
     (case item data ''title'' of Inl e \<Rightarrow> (Inl e, st) | Inr title \<Rightarrow>
     (case insert_task title (get_default data ''description'' [])
             (get_default data ''status'' ''pending'') (get_default data ''priority'' ''medium'')
             current_user_id now st of
        Inl e \<Rightarrow> (Inl e, st)
      | Inr (st', lastrowid) \<Rightarrow>
        (case select_task_by_id lastrowid st' of
           Inl e \<Rightarrow> (Inl e, st')
         | Inr None \<Rightarrow> (Inl not_subscriptable, st')
         | Inr (Some task) \<Rightarrow>
             (Inr (Response (JObj [(''success'', JBool True),
                                   (''message'', JStr ''Task created successfully''),
                                   (''task'', task_dict task)]) 201), st'))))"

definition create_task :: "int \<Rightarrow> request \<Rightarrow> int \<Rightarrow> storage \<Rightarrow> outcome \<times> storage" where
  \<comment> \<open>lines 220 to 259, the function under the decorator\<close>
  "create_task current_user_id req now st = (case json_body req of
       None \<Rightarrow> (Response (message ''Title is required'') 400, st)
     | Some data \<Rightarrow>
         if data = [] \<or> \<not> truthy (map_of data ''title'')
         then (Response (message ''Title is required'') 400, st)
         else (case create_task_try current_user_id data now st of
                 (Inr r, st') \<Rightarrow> (r, st')
               | (Inl e, st') \<Rightarrow> (Response (JObj [(''error'', JStr (str_exn e))]) 500, st')))"

subsection \<open>app.py: the routes\<close>

datatype route = POST_auth_register | POST_auth_login | GET_tasks | POST_tasks

definition dispatch :: "route \<Rightarrow> request \<Rightarrow> int \<Rightarrow> storage \<Rightarrow> outcome \<times> storage" where
  \<comment> \<open>the \<^verbatim>\<open>@app.route\<close> and \<^verbatim>\<open>@token_required\<close> decorations\<close>
  "dispatch r = (case r of
       POST_auth_register \<Rightarrow> register
     | POST_auth_login \<Rightarrow> login
     | GET_tasks \<Rightarrow> token_required get_tasks
     | POST_tasks \<Rightarrow> token_required create_task)"

fun serve :: "(route \<times> request \<times> int) list \<Rightarrow> storage \<Rightarrow> storage" where
  "serve [] st = st"
| "serve ((r, req, now) # rest) st = serve rest (snd (dispatch r req now st))"

subsection \<open>The rows the handlers insert, and an example database\<close>

definition new_user :: "string \<Rightarrow> string \<Rightarrow> string \<Rightarrow> int \<Rightarrow> database \<Rightarrow> users_row" where
  \<comment> \<open>the row that the \<^verbatim>\<open>INSERT\<close> of \<^verbatim>\<open>register\<close> writes\<close>
  "new_user username email password_hash now d =
     \<lparr>u_id = next_rowid (map u_id (users d)) (users_seq d), u_username = username,
      u_email = email, u_password_hash = password_hash, u_created_at = now\<rparr>"

definition new_task :: "int \<Rightarrow> (string \<times> string) list \<Rightarrow> string \<Rightarrow> int \<Rightarrow> database \<Rightarrow> tasks_row" where
  \<comment> \<open>the row that the \<^verbatim>\<open>INSERT\<close> of \<^verbatim>\<open>create_task\<close> writes\<close>
  "new_task current_user_id data title now d =
     \<lparr>t_id = next_rowid (map t_id (tasks d)) (tasks_seq d), t_title = title,
      t_description = get_default data ''description'' [],
      t_status = get_default data ''status'' ''pending'',
      t_priority = get_default data ''priority'' ''medium'',
      t_user_id = current_user_id, t_created_at = now, t_updated_at = now\<rparr>"

definition alice :: users_row where
  "alice = \<lparr>u_id = 1, u_username = ''alice'', u_email = ''a@x.com'',
            u_password_hash = hexdigest (sha256 (to_bytes ''pw123456'')), u_created_at = 1000\<rparr>"

definition bob :: users_row where
  \<comment> \<open>an account whose stored digest no password has: it is not 64 characters long\<close>
  "bob = \<lparr>u_id = 2, u_username = ''bob'', u_email = ''b@x.com'',
          u_password_hash = ''locked'', u_created_at = 2000\<rparr>"

definition task_row :: "int \<Rightarrow> string \<Rightarrow> int \<Rightarrow> int \<Rightarrow> tasks_row" where
  "task_row i title owner created =
     \<lparr>t_id = i, t_title = title, t_description = [], t_status = ''pending'',
      t_priority = ''medium'', t_user_id = owner, t_created_at = created,
      t_updated_at = created\<rparr>"

definition db_example :: database where
  "db_example =
     \<lparr>users = [alice, bob], users_seq = 2,
      tasks = [task_row 1 ''buy milk'' 1 3000, task_row 2 ''pay rent'' 2 3100,
               task_row 3 ''call home'' 1 3200, task_row 4 ''book trip'' 1 3300],
      tasks_seq = 4\<rparr>"

definition body :: "(string \<times> string) list \<Rightarrow> request" where
  \<comment> \<open>a request with a JSON body and no \<^verbatim>\<open>Authorization\<close> header\<close>
  "body data = \<lparr>authorization = None, json_body = Some data\<rparr>"

section \<open>Properties\<close>

subsection \<open>The password hasher\<close>

lemma length_hexdigest: "length (hexdigest s) = 64"
  by (simp add: hexdigest_def hex32_def split: prod.splits)




lemma length_takeWhile_all: "length (takeWhile P xs) = length xs \<longleftrightarrow> list_all P xs"
  by (induction xs) auto

lemma encode_encodable: "encodable s \<Longrightarrow> encode s = Inr (to_bytes s)"
  by (simp add: encode_def encodable_def length_takeWhile_all Let_def)

lemma encode_unencodable: "\<not> encodable s \<Longrightarrow> \<exists>c i j. encode s = Inl (UnicodeEncodeError c i j)"
  by (simp add: encode_def encodable_def length_takeWhile_all Let_def)

lemma hash_password_encodable:
  "encodable p \<Longrightarrow> hash_password p = Inr (hexdigest (sha256 (to_bytes p)))"
  by (simp add: hash_password_def encode_encodable)

lemma hash_password_unencodable:
  "\<not> encodable p \<Longrightarrow> \<exists>c i j. hash_password p = Inl (UnicodeEncodeError c i j)"
  using encode_unencodable [of p] by (auto simp: hash_password_def)

lemma hash_password_Inr: "hash_password p = Inr h \<Longrightarrow> encodable p \<and> length h = 64"
  using hash_password_unencodable [of p] hash_password_encodable [of p]
  by (cases "encodable p") (auto simp: length_hexdigest)



lemma code_points_replicate: "code_points (replicate n CHR ''a'') = replicate n 97"
  by (induction n) (simp_all add: seq_len_def lead_bits_def)

lemma encodable_replicate: "encodable (replicate n CHR ''a'')"
  by (simp add: encodable_def code_points_replicate list_all_iff is_surrogate_def)

text \<open>
  A digest has 64 characters, so its values are finitely many, while the encodable
  passwords are not: two different encodable passwords have the same digest. Which two is
  not known; the lemma only counts.
\<close>

lemma hash_password_collides:
  "\<exists>p1 p2. p1 \<noteq> p2 \<and> encodable p1 \<and> encodable p2 \<and> hash_password p1 = hash_password p2"
proof (rule ccontr)
  assume none: "\<not> ?thesis"
  let ?A = "range (\<lambda>n. replicate n CHR ''a'')"
  have enc: "encodable p" if "p \<in> ?A" for p
    using that by (auto simp: encodable_replicate)
  have "inj_on hash_password ?A"
  proof (rule inj_onI)
    fix x y
    assume "x \<in> ?A" "y \<in> ?A" "hash_password x = hash_password y"
    with none enc show "x = y" by blast
  qed
  moreover have "finite (hash_password ` ?A)"
  proof (rule finite_subset)
    show "hash_password ` ?A \<subseteq> Inr ` {s :: string. length s = 64}"
      using enc by (auto simp: hash_password_encodable length_hexdigest)
    have "finite {s :: string. length s = 64}"
      using finite_lists_length_eq [of "UNIV :: char set" 64] by simp
    then show "finite (Inr ` {s :: string. length s = 64} :: (exn + string) set)"
      by (rule finite_imageI)
  qed
  ultimately have "finite ?A"
    by (rule finite_imageD [rotated])
  moreover have "inj (\<lambda>n. replicate n CHR ''a'')"
    by (rule injI) (metis length_replicate)
  ultimately have "finite (UNIV :: nat set)"
    by (rule finite_imageD)
  then show False
    by simp
qed




subsection \<open>The token codec\<close>

lemma str_split_not_Nil: "str_split c s \<noteq> []"
  by (induction s) (auto split: list.splits)

lemma str_split_no_sep: "c \<notin> set s \<Longrightarrow> str_split c s = [s]"
  by (induction s) auto

lemma str_split_append: "c \<notin> set a \<Longrightarrow> str_split c (a @ c # b) = a # str_split c b"
  by (induction a) auto

lemma of_char_digit_char: "of_char (digit_char n) = 48 + n mod 10"
  by (simp add: digit_char_def)

lemma is_digit_digit_char: "is_digit (digit_char n)"
  by (simp add: is_digit_def digit_char_def)

lemma str_nat_not_Nil: "str_nat n \<noteq> []"
  by (subst str_nat.simps) simp

lemma str_nat_digits: "list_all is_digit (str_nat n)"
  by (induction n rule: str_nat.induct) (subst str_nat.simps, simp add: is_digit_digit_char)

lemma foldl_str_nat: "foldl (\<lambda>a c. 10 * a + (of_char c - 48)) 0 (str_nat n) = n"
proof (induction n rule: str_nat.induct)
  case (1 n)
  show ?case
  proof (cases "n < 10")
    case True
    then show ?thesis by (subst str_nat.simps) (simp add: of_char_digit_char)
  next
    case False
    with 1 show ?thesis by (subst str_nat.simps) (simp add: of_char_digit_char)
  qed
qed

lemma parse_nat_str_nat: "parse_nat (str_nat n) = Some n"
  by (simp add: parse_nat_def str_nat_not_Nil str_nat_digits foldl_str_nat)

lemma hd_str_nat_not_minus: "str_nat n = c # cs \<Longrightarrow> c \<noteq> CHR ''-''"
  using str_nat_digits [of n] by (auto simp: is_digit_def)

lemma parse_int_str_int: "parse_int (str_int i) = Some i"
proof (cases "i < 0")
  case True
  then show ?thesis by (simp add: parse_int_def str_int_def parse_nat_str_nat)
next
  case False
  obtain c cs where s: "str_nat (nat i) = c # cs"
    using str_nat_not_Nil [of "nat i"] by (cases "str_nat (nat i)") auto
  from hd_str_nat_not_minus [OF s] False show ?thesis
    using parse_nat_str_nat [of "nat i"] by (simp add: parse_int_def str_int_def s)
qed


lemma str_int_chars: "c \<in> set (str_int i) \<Longrightarrow> is_digit c \<or> c = CHR ''-''"
  using str_nat_digits [of "nat i"] str_nat_digits [of "nat (- i)"]
  by (auto simp: str_int_def list_all_iff split: if_splits)

lemma str_int_no_sep:
  "CHR ''='' \<notin> set (str_int i)" "CHR '';'' \<notin> set (str_int i)" "CHR ''.'' \<notin> set (str_int i)"
  using str_int_chars [of "CHR ''=''" i] str_int_chars [of "CHR '';''" i]
    str_int_chars [of "CHR ''.''" i]
  by (auto simp: is_digit_def)

lemma decode_claim_encode:
  "claim_key k \<Longrightarrow> decode_claim (k @ ''='' @ str_int v) = Some (k, v)"
  using str_split_append [of "CHR ''=''" k "str_int v"]
  by (simp add: decode_claim_def claim_key_def str_split_no_sep str_int_no_sep parse_int_str_int)

lemma decode_claims_encode_claims:
  "list_all (\<lambda>(k, v). claim_key k) payload \<Longrightarrow> decode_claims (encode_claims payload) = Some payload"
proof (induction payload)
  case Nil
  then show ?case by (simp add: decode_claims_def encode_claims_def)
next
  case (Cons kv payload)
  show ?case
  proof (cases kv)
    case (Pair k v)
    with Cons.prems have k: "claim_key k" by simp
    then have nosep: "CHR '';'' \<notin> set (k @ ''='' @ str_int v)"
      by (simp add: claim_key_def str_int_no_sep)
    have "encode_claims ((k, v) # payload) = (k @ ''='' @ str_int v) @ CHR '';'' # encode_claims payload"
      by (simp add: encode_claims_def)
    then have sp: "str_split CHR '';'' (encode_claims ((k, v) # payload))
        = (k @ ''='' @ str_int v) # str_split CHR '';'' (encode_claims payload)"
      using str_split_append [OF nosep] by simp
    from Cons Pair have "decode_claims (encode_claims payload) = Some payload" by simp
    then have ih: "last (str_split CHR '';'' (encode_claims payload)) = []"
      "those (map decode_claim (butlast (str_split CHR '';'' (encode_claims payload)))) = Some payload"
      by (auto simp: decode_claims_def Let_def split: if_splits)
    show ?thesis
      unfolding Pair decode_claims_def Let_def sp
      using ih decode_claim_encode [OF k, of v] by (simp add: str_split_not_Nil)
  qed
qed

lemma encode_claims_no_dot:
  "list_all (\<lambda>(k, v). claim_key k) payload \<Longrightarrow> CHR ''.'' \<notin> set (encode_claims payload)"
  by (induction payload) (auto simp: encode_claims_def claim_key_def str_int_no_sep)

lemma hex_digit_no_dot: "hex_digit n \<noteq> CHR ''.''"
proof -
  have "hex_digit n \<in> set ''0123456789abcdef''"
    unfolding hex_digit_def by (rule nth_mem) simp
  then show ?thesis by auto
qed

lemma hex32_no_dot: "CHR ''.'' \<notin> set (hex32 w)"
  by (simp add: hex32_def hex_digit_no_dot [symmetric])

lemma hexdigest_no_dot: "CHR ''.'' \<notin> set (hexdigest s)"
  by (simp add: hexdigest_def hex32_no_dot split: prod.splits)

lemma jwt_decode_jwt_encode:
  assumes "list_all (\<lambda>(k, v). claim_key k) payload"
  shows "jwt_decode (jwt_encode payload key) key now =
     (case map_of payload ''exp'' of
        None \<Rightarrow> Inr payload
      | Some expiry \<Rightarrow> if expiry \<le> now then Inl ExpiredSignatureError else Inr payload)"
proof -
  let ?p = "encode_claims payload"
  let ?s = "jwt_sign key (jwt_header @ ''.'' @ ?p)"
  have h: "CHR ''.'' \<notin> set jwt_header" by (simp add: jwt_header_def)
  have p: "CHR ''.'' \<notin> set ?p" by (rule encode_claims_no_dot [OF assms])
  have s: "CHR ''.'' \<notin> set ?s" by (simp add: jwt_sign_def hexdigest_no_dot)
  have "jwt_encode payload key = jwt_header @ CHR ''.'' # (?p @ CHR ''.'' # ?s)"
    by (simp add: jwt_encode_def)
  then have "str_split CHR ''.'' (jwt_encode payload key) = [jwt_header, ?p, ?s]"
    using h p s by (simp add: str_split_append str_split_no_sep)
  then show ?thesis
    by (simp add: jwt_decode_def decode_claims_encode_claims [OF assms])
qed

lemma strip_bearer_prefix:
  "strip_bearer (''Bearer '' @ token) = token"
  "strip_bearer (CHR ''B'' # CHR ''e'' # CHR ''a'' # CHR ''r'' # CHR ''e'' # CHR ''r'' # CHR '' '' # token)
     = token"
  by (simp_all add: strip_bearer_def)


lemma jwt_decode_issue_token:
  "jwt_decode (issue_token user_id issued) SECRET_KEY now =
     (if issued + 86400 \<le> now then Inl ExpiredSignatureError
      else Inr [(''user_id'', user_id), (''exp'', issued + 86400)])"
  unfolding issue_token_def
  by (subst jwt_decode_jwt_encode) (simp_all add: claim_key_def)


subsection \<open>The token decorator\<close>

text \<open>
  Claim C1: on a task endpoint, a request without an \<^verbatim>\<open>Authorization\<close> header is answered
  401 \<^verbatim>\<open>Token is missing\<close>; a request that presents a token (a non-empty header, the
  \<^verbatim>\<open>Bearer \<close> prefix stripped when present) whose verification fails for any reason is
  answered 401 \<^verbatim>\<open>Token is invalid\<close>; a request whose token verifies is handed to the
  inner handler with the \<^verbatim>\<open>user_id\<close> of that token; and the decorated handler depends on
  the inner handler only through its result at the \<^verbatim>\<open>user_id\<close> of a verified token, so the
  inner handler is never invoked with any other principal.
\<close>

theorem token_required_authenticates:
  "(authorization req = None \<longrightarrow>
      token_required f req now st = (Response (message ''Token is missing'') 401, st))
   \<and> (\<forall>token e. authorization req = Some token \<and> token \<noteq> []
          \<and> jwt_decode (strip_bearer token) SECRET_KEY now = Inl e \<longrightarrow>
      token_required f req now st = (Response (message ''Token is invalid'') 401, st))
   \<and> (\<forall>token data uid. authorization req = Some token \<and> token \<noteq> []
          \<and> jwt_decode (strip_bearer token) SECRET_KEY now = Inr data
          \<and> map_of data ''user_id'' = Some uid \<longrightarrow>
      token_required f req now st = f uid req now st)
   \<and> ((\<forall>uid. (\<exists>token data. authorization req = Some token
            \<and> jwt_decode (strip_bearer token) SECRET_KEY now = Inr data
            \<and> map_of data ''user_id'' = Some uid) \<longrightarrow>
          f uid req now st = g uid req now st) \<longrightarrow>
      token_required f req now st = token_required g req now st)"
  by (auto simp: token_required_def split: option.splits sum.splits)

text \<open>
  The four cases at concrete requests: no header, \<^verbatim>\<open>Bearer garbage\<close>, a token presented at
  its expiration instant, and a token presented while it is valid.
\<close>

theorem token_required_authenticates_witness:
  "token_required get_tasks \<lparr>authorization = None, json_body = None\<rparr> 5 (Unavailable ''down'')
     = (Response (message ''Token is missing'') 401, Unavailable ''down'')
   \<and> token_required get_tasks \<lparr>authorization = Some ''Bearer garbage'', json_body = None\<rparr> 5
        (Unavailable ''down'')
     = (Response (message ''Token is invalid'') 401, Unavailable ''down'')
   \<and> token_required get_tasks
        \<lparr>authorization = Some (''Bearer '' @ issue_token 1 0), json_body = None\<rparr> 86400
        (Unavailable ''down'')
     = (Response (message ''Token is invalid'') 401, Unavailable ''down'')
   \<and> token_required get_tasks
        \<lparr>authorization = Some (''Bearer '' @ issue_token 1 0), json_body = None\<rparr> 5
        (Unavailable ''down'')
     = get_tasks 1 \<lparr>authorization = Some (''Bearer '' @ issue_token 1 0), json_body = None\<rparr> 5
        (Unavailable ''down'')
   \<and> token_required get_tasks \<lparr>authorization = Some ''Bearer garbage'', json_body = None\<rparr> 5
        (Unavailable ''down'')
     = token_required create_task \<lparr>authorization = Some ''Bearer garbage'', json_body = None\<rparr> 5
        (Unavailable ''down'')"
proof -
  have garbage: "jwt_decode (strip_bearer ''Bearer garbage'') SECRET_KEY 5 = Inl DecodeError"
    by (simp add: strip_bearer_def jwt_decode_def)
  have expired: "jwt_decode (strip_bearer (''Bearer '' @ issue_token 1 0)) SECRET_KEY 86400
      = Inl ExpiredSignatureError"
    by (simp add: strip_bearer_prefix jwt_decode_issue_token)
  have valid: "jwt_decode (strip_bearer (''Bearer '' @ issue_token 1 0)) SECRET_KEY 5
      = Inr [(''user_id'', 1), (''exp'', 86400)]"
    by (simp add: strip_bearer_prefix jwt_decode_issue_token)
  note inst = token_required_authenticates [where now = 5 and st = "Unavailable ''down''"
      and f = get_tasks and g = create_task]
  have c1: "token_required get_tasks \<lparr>authorization = None, json_body = None\<rparr> 5 (Unavailable ''down'')
     = (Response (message ''Token is missing'') 401, Unavailable ''down'')"
    using inst [of "\<lparr>authorization = None, json_body = None\<rparr>"] by simp
  have c2: "token_required get_tasks \<lparr>authorization = Some ''Bearer garbage'', json_body = None\<rparr> 5
        (Unavailable ''down'')
     = (Response (message ''Token is invalid'') 401, Unavailable ''down'')"
    using inst [of "\<lparr>authorization = Some ''Bearer garbage'', json_body = None\<rparr>"] garbage
    by simp
  have c3: "token_required get_tasks
        \<lparr>authorization = Some (''Bearer '' @ issue_token 1 0), json_body = None\<rparr> 86400
        (Unavailable ''down'')
     = (Response (message ''Token is invalid'') 401, Unavailable ''down'')"
    using token_required_authenticates
        [of "\<lparr>authorization = Some (''Bearer '' @ issue_token 1 0), json_body = None\<rparr>"
          get_tasks 86400 "Unavailable ''down''"] expired
    by simp
  have c4: "token_required get_tasks
        \<lparr>authorization = Some (''Bearer '' @ issue_token 1 0), json_body = None\<rparr> 5
        (Unavailable ''down'')
     = get_tasks 1 \<lparr>authorization = Some (''Bearer '' @ issue_token 1 0), json_body = None\<rparr> 5
        (Unavailable ''down'')"
    using inst [of "\<lparr>authorization = Some (''Bearer '' @ issue_token 1 0), json_body = None\<rparr>"]
      valid
    by simp
  have c5: "token_required get_tasks \<lparr>authorization = Some ''Bearer garbage'', json_body = None\<rparr> 5
        (Unavailable ''down'')
     = token_required create_task \<lparr>authorization = Some ''Bearer garbage'', json_body = None\<rparr> 5
        (Unavailable ''down'')"
    using inst [of "\<lparr>authorization = Some ''Bearer garbage'', json_body = None\<rparr>"] garbage
    by auto
  from c1 c2 c3 c4 c5 show ?thesis
    by (intro conjI)
qed

text \<open>
  Claim C9: the decorator never raises. A presented token that fails to decode, or that
  decodes to a payload without \<^verbatim>\<open>user_id\<close>, is answered 401 \<^verbatim>\<open>Token is invalid\<close>; in
  particular a token that is signed with the application's key and not expired, but
  carries no \<^verbatim>\<open>user_id\<close>, decodes successfully and is answered that way; and an exception
  leaves the decorated handler only if the inner handler lets it escape.
\<close>

theorem token_required_never_raises:
  "(\<forall>token. authorization req = Some token \<and> token \<noteq> []
        \<and> (\<forall>data. jwt_decode (strip_bearer token) SECRET_KEY now = Inr data \<longrightarrow>
              map_of data ''user_id'' = None) \<longrightarrow>
      token_required f req now st = (Response (message ''Token is invalid'') 401, st))
   \<and> (\<forall>payload. list_all (\<lambda>(k, v). claim_key k) payload \<and> map_of payload ''user_id'' = None
        \<and> (\<forall>expiry. map_of payload ''exp'' = Some expiry \<longrightarrow> now < expiry)
        \<and> authorization req = Some (''Bearer '' @ jwt_encode payload SECRET_KEY) \<longrightarrow>
      jwt_decode (jwt_encode payload SECRET_KEY) SECRET_KEY now = Inr payload
      \<and> token_required f req now st = (Response (message ''Token is invalid'') 401, st))
   \<and> ((\<forall>uid. fst (f uid req now st) \<noteq> Unhandled x) \<longrightarrow>
      fst (token_required f req now st) \<noteq> Unhandled x)"
proof (intro conjI allI impI)
  fix token
  assume "authorization req = Some token \<and> token \<noteq> []
        \<and> (\<forall>data. jwt_decode (strip_bearer token) SECRET_KEY now = Inr data \<longrightarrow>
              map_of data ''user_id'' = None)"
  then show "token_required f req now st = (Response (message ''Token is invalid'') 401, st)"
    by (auto simp: token_required_def split: sum.splits option.splits)
next
  fix payload
  assume a: "list_all (\<lambda>(k, v). claim_key k) payload \<and> map_of payload ''user_id'' = None
        \<and> (\<forall>expiry. map_of payload ''exp'' = Some expiry \<longrightarrow> now < expiry)
        \<and> authorization req = Some (''Bearer '' @ jwt_encode payload SECRET_KEY)"
  then show d: "jwt_decode (jwt_encode payload SECRET_KEY) SECRET_KEY now = Inr payload"
    by (auto simp: jwt_decode_jwt_encode split: option.splits)
  from a d show "token_required f req now st = (Response (message ''Token is invalid'') 401, st)"
    by (simp add: token_required_def strip_bearer_prefix)
next
  assume "\<forall>uid. fst (f uid req now st) \<noteq> Unhandled x"
  then show "fst (token_required f req now st) \<noteq> Unhandled x"
    by (auto simp: token_required_def split: sum.splits option.splits)
qed

text \<open>
  At concrete requests: a signed, unexpired token whose payload is only \<^verbatim>\<open>exp\<close>, and a token
  that does not parse.
\<close>

theorem token_required_never_raises_witness:
  "jwt_decode (jwt_encode [(''exp'', 100)] SECRET_KEY) SECRET_KEY 5 = Inr [(''exp'', 100)]
   \<and> token_required create_task
        \<lparr>authorization = Some (''Bearer '' @ jwt_encode [(''exp'', 100)] SECRET_KEY),
          json_body = Some [(''title'', ''x'')]\<rparr> 5 (Unavailable ''down'')
      = (Response (message ''Token is invalid'') 401, Unavailable ''down'')
   \<and> token_required create_task \<lparr>authorization = Some ''x.y.z'', json_body = None\<rparr> 5
        (Unavailable ''down'')
      = (Response (message ''Token is invalid'') 401, Unavailable ''down'')
   \<and> fst (token_required create_task \<lparr>authorization = Some ''x.y.z'', json_body = None\<rparr> 5
        (Unavailable ''down'')) \<noteq> Unhandled (KeyError ''user_id'')"
proof -
  have bad: "jwt_decode (strip_bearer ''x.y.z'') SECRET_KEY 5 = Inl DecodeError"
    by (simp add: strip_bearer_def jwt_decode_def jwt_header_def)
  have quiet: "\<forall>uid. fst (create_task uid \<lparr>authorization = Some ''x.y.z'', json_body = None\<rparr> 5
      (Unavailable ''down'')) \<noteq> Unhandled (KeyError ''user_id'')"
    by (simp add: create_task_def)
  have ok: "list_all (\<lambda>(k, v). claim_key k) [(''exp'', 100 :: int)]"
    by (simp add: claim_key_def)
  note i1 = token_required_never_raises
        [of "\<lparr>authorization = Some (''Bearer '' @ jwt_encode [(''exp'', 100)] SECRET_KEY),
               json_body = Some [(''title'', ''x'')]\<rparr>" 5 create_task "Unavailable ''down''"]
  note i2 = token_required_never_raises
        [of "\<lparr>authorization = Some ''x.y.z'', json_body = None\<rparr>" 5 create_task
          "Unavailable ''down''" "KeyError ''user_id''"]
  have c12: "jwt_decode (jwt_encode [(''exp'', 100)] SECRET_KEY) SECRET_KEY 5 = Inr [(''exp'', 100)]
   \<and> token_required create_task
        \<lparr>authorization = Some (''Bearer '' @ jwt_encode [(''exp'', 100)] SECRET_KEY),
          json_body = Some [(''title'', ''x'')]\<rparr> 5 (Unavailable ''down'')
      = (Response (message ''Token is invalid'') 401, Unavailable ''down'')"
    using i1 ok by simp
  have c3: "token_required create_task \<lparr>authorization = Some ''x.y.z'', json_body = None\<rparr> 5
        (Unavailable ''down'')
      = (Response (message ''Token is invalid'') 401, Unavailable ''down'')"
    using i2 bad by simp
  have c4: "fst (token_required create_task \<lparr>authorization = Some ''x.y.z'', json_body = None\<rparr> 5
        (Unavailable ''down'')) \<noteq> Unhandled (KeyError ''user_id'')"
    using i2 quiet by blast
  from c12 c3 c4 show ?thesis
    by (intro conjI) simp_all
qed

subsection \<open>Registration and login\<close>

lemma find_append_new: "\<forall>x \<in> set xs. \<not> P x \<Longrightarrow> P y \<Longrightarrow> find P (xs @ [y]) = Some y"
  by (induction xs) auto

lemma le_foldr_max: "x \<in> set ids \<Longrightarrow> x \<le> foldr max ids (seq :: int)"
  by (induction ids) auto

lemma next_rowid_fresh: "x \<in> set ids \<Longrightarrow> x < next_rowid ids seq"
  using le_foldr_max [of x ids seq] by (simp add: next_rowid_def)

lemma register_Ready:
  assumes "json_body req = Some data"
    and "map_of data ''username'' = Some username" and "username \<noteq> []"
    and "map_of data ''email'' = Some email" and "email \<noteq> []"
    and "map_of data ''password'' = Some password" and "password \<noteq> []"
    and "hash_password password = Inr h"
  shows "register req now (Ready d) =
     (if \<exists>u \<in> set (users d). u_username u = username \<or> u_email u = email
      then (Response (message ''Username or email already exists'') 400, Ready d)
      else (Response (JObj [(''message'', JStr ''User created successfully''),
                            (''token'', JStr (issue_token (u_id (new_user username email h now d)) now)),
                            (''user'', user_dict (new_user username email h now d))]) 201,
            Ready (d\<lparr>users := users d @ [new_user username email h now d],
                     users_seq := u_id (new_user username email h now d)\<rparr>)))"
proof -
  from assms have data: "data \<noteq> []" by auto
  show ?thesis
  proof (cases "\<exists>u \<in> set (users d). u_username u = username \<or> u_email u = email")
    case True
    then show ?thesis
      using assms data
      by (simp add: register_def register_try_def item_def truthy_def insert_user_def)
  next
    case False
    then have "find (\<lambda>u. u_email u = email) (users d @ [new_user username email h now d])
        = Some (new_user username email h now d)"
      by (intro find_append_new) (auto simp: new_user_def)
    then show ?thesis
      using assms data False
      by (simp add: register_def register_try_def item_def truthy_def insert_user_def
          select_user_by_email_def Let_def new_user_def)
  qed
qed












subsection \<open>Creating a task\<close>

lemma create_task_invalid:
  assumes "json_body req = None
     \<or> (\<exists>data. json_body req = Some data \<and> \<not> truthy (map_of data ''title''))"
  shows "create_task uid req now st = (Response (message ''Title is required'') 400, st)"
  using assms by (auto simp: create_task_def)

lemma create_task_Ready:
  assumes "json_body req = Some data" and "map_of data ''title'' = Some title" and "title \<noteq> []"
  shows "create_task uid req now (Ready d) =
     (Response (JObj [(''success'', JBool True), (''message'', JStr ''Task created successfully''),
                      (''task'', task_dict (new_task uid data title now d))]) 201,
      Ready (d\<lparr>tasks := tasks d @ [new_task uid data title now d],
               tasks_seq := t_id (new_task uid data title now d)\<rparr>))"
proof -
  from assms have data: "data \<noteq> []" by auto
  have "\<forall>t \<in> set (tasks d). t_id t \<noteq> t_id (new_task uid data title now d)"
    using next_rowid_fresh [of _ "map t_id (tasks d)" "tasks_seq d"]
    by (fastforce simp: new_task_def)
  then have "find (\<lambda>t. t_id t = t_id (new_task uid data title now d))
      (tasks d @ [new_task uid data title now d]) = Some (new_task uid data title now d)"
    by (intro find_append_new) auto
  then show ?thesis
    using assms data
    by (simp add: create_task_def create_task_try_def item_def truthy_def insert_task_def
        select_task_by_id_def Let_def new_task_def)
qed






subsection \<open>Listing tasks\<close>


lemma get_tasks_Ready:
  "get_tasks uid req now (Ready d) =
     (Response (JObj [(''success'', JBool True),
         (''tasks'', JList (map task_list_item
            (sort_key (\<lambda>t. - t_created_at t) (filter (\<lambda>t. t_user_id t = uid) (tasks d))))),
         (''count'', JInt (int (length (filter (\<lambda>t. t_user_id t = uid) (tasks d)))))]) 200,
      Ready d)"
  by (simp add: get_tasks_def select_tasks_by_user_def)



subsection \<open>Isolation of the users' tasks\<close>

text \<open>
  What each route does to the \<^verbatim>\<open>tasks\<close> table: only \<^verbatim>\<open>create_task\<close> writes to it, and it
  appends one row with a fresh id.
\<close>

lemma register_tasks: "\<exists>d'. snd (register req now (Ready d)) = Ready d' \<and> tasks d' = tasks d"
proof (cases "json_body req")
  case None
  then show ?thesis by (simp add: register_def)
next
  case (Some data)
  show ?thesis
  proof (cases "truthy (map_of data ''username'') \<and> truthy (map_of data ''email'')
      \<and> truthy (map_of data ''password'')")
    case False
    with Some show ?thesis by (auto simp: register_def)
  next
    case True
    then obtain username email password where
      "map_of data ''username'' = Some username" "username \<noteq> []"
      "map_of data ''email'' = Some email" "email \<noteq> []"
      "map_of data ''password'' = Some password" "password \<noteq> []"
      by (auto simp: truthy_def split: option.splits)
    note fields = this
    show ?thesis
    proof (cases "hash_password password")
      case (Inl e)
      with Some fields show ?thesis
        by (auto simp: register_def register_try_def item_def truthy_def)
    next
      case (Inr h)
      with Some fields show ?thesis
        by (simp add: register_Ready [of req data username email password h])
    qed
  qed
qed

lemma login_storage: "snd (login req now st) = st"
  by (simp add: login_def split: option.splits sum.splits)

lemma get_tasks_storage: "snd (get_tasks uid req now st) = st"
  by (simp add: get_tasks_def split: sum.splits)

lemma create_task_tasks:
  "\<exists>d'. snd (create_task uid req now (Ready d)) = Ready d'
     \<and> (tasks d' = tasks d
        \<or> (\<exists>task. tasks d' = tasks d @ [task] \<and> t_id task \<notin> t_id ` set (tasks d)))"
proof (cases "json_body req")
  case None
  then show ?thesis by (simp add: create_task_invalid)
next
  case (Some data)
  show ?thesis
  proof (cases "truthy (map_of data ''title'')")
    case False
    with Some show ?thesis by (simp add: create_task_invalid)
  next
    case True
    then obtain title where v: "map_of data ''title'' = Some title" "title \<noteq> []"
      by (auto simp: truthy_def split: option.splits)
    have "t_id (new_task uid data title now d) \<notin> t_id ` set (tasks d)"
      using next_rowid_fresh [of _ "map t_id (tasks d)" "tasks_seq d"]
      by (fastforce simp: new_task_def)
    then show ?thesis
      by (simp add: create_task_Ready [OF Some v])
  qed
qed

lemma token_required_storage:
  "snd (token_required f req now st) = st
     \<or> (\<exists>uid. snd (token_required f req now st) = snd (f uid req now st))"
  by (auto simp: token_required_def split: option.splits sum.splits)

lemma dispatch_tasks:
  assumes "distinct (map t_id (tasks d))"
  shows "\<exists>d'. snd (dispatch r req now (Ready d)) = Ready d'
     \<and> distinct (map t_id (tasks d')) \<and> (\<exists>more. tasks d' = tasks d @ more)"
proof (cases r)
  case POST_auth_register
  then show ?thesis
    using register_tasks [of req now d] assms by (auto simp: dispatch_def)
next
  case POST_auth_login
  then show ?thesis
    using assms by (simp add: dispatch_def login_storage)
next
  case GET_tasks
  then show ?thesis
    using token_required_storage [of get_tasks req now "Ready d"] assms
    by (auto simp: dispatch_def get_tasks_storage)
next
  case POST_tasks
  have "\<exists>d'. snd (create_task uid req now (Ready d)) = Ready d'
     \<and> distinct (map t_id (tasks d')) \<and> (\<exists>more. tasks d' = tasks d @ more)" for uid
    using create_task_tasks [of uid req now d] assms by auto
  with POST_tasks show ?thesis
    using token_required_storage [of create_task req now "Ready d"] assms
    by (auto simp: dispatch_def)
qed

lemma serve_tasks:
  "distinct (map t_id (tasks d)) \<Longrightarrow>
   \<exists>d'. serve calls (Ready d) = Ready d'
     \<and> distinct (map t_id (tasks d')) \<and> (\<exists>more. tasks d' = tasks d @ more)"
proof (induction calls arbitrary: d)
  case Nil
  then show ?case by simp
next
  case (Cons call calls)
  obtain r req now where call: "call = (r, req, now)"
    by (cases call)
  from dispatch_tasks [OF Cons.prems, of r req now] obtain d1 more1 where
    d1: "snd (dispatch r req now (Ready d)) = Ready d1" "distinct (map t_id (tasks d1))"
      "tasks d1 = tasks d @ more1"
    by blast
  from Cons.IH [OF d1(2)] obtain d2 more2 where
    d2: "serve calls (Ready d1) = Ready d2" "distinct (map t_id (tasks d2))"
      "tasks d2 = tasks d1 @ more2"
    by blast
  from d1 d2 call show ?case by simp
qed


lemma token_required_authenticated:
  "authenticated_as req now uid \<Longrightarrow> token_required f req now st = f uid req now st"
  by (auto simp: authenticated_as_def token_required_def)

lemma authenticated_as_issue_token:
  "now < issued + 86400 \<Longrightarrow>
   authenticated_as \<lparr>authorization = Some (''Bearer '' @ issue_token uid issued), json_body = b\<rparr> now uid"
  by (simp add: authenticated_as_def strip_bearer_prefix jwt_decode_issue_token)

text \<open>
  Claim C2: let a request authenticated as user \<open>A\<close> create a task, in a state whose task
  ids are distinct (the primary key), and let \<open>B\<close> be another user. After any further
  sequence of requests to the four routes, a list-tasks request authenticated as \<open>B\<close> is
  answered with exactly the tasks whose owner is \<open>B\<close>; the task of \<open>A\<close> is still stored
  and is not among them, nor is any task with its id.
\<close>

theorem tasks_isolated:
  "distinct (map t_id (tasks d)) \<and> A \<noteq> B \<and> authenticated_as req now A
   \<and> json_body req = Some data \<and> map_of data ''title'' = Some title \<and> title \<noteq> [] \<longrightarrow>
   (\<exists>task d1.
      dispatch POST_tasks req now (Ready d)
        = (Response (JObj [(''success'', JBool True),
               (''message'', JStr ''Task created successfully''),
               (''task'', task_dict task)]) 201, Ready d1)
      \<and> tasks d1 = tasks d @ [task] \<and> t_user_id task = A
      \<and> (\<forall>calls. \<exists>d2 rows.
            serve calls (Ready d1) = Ready d2
            \<and> task \<in> set (tasks d2)
            \<and> set rows = {t \<in> set (tasks d2). t_user_id t = B}
            \<and> task \<notin> set rows
            \<and> t_id task \<notin> t_id ` set rows
            \<and> (\<forall>req' now'. authenticated_as req' now' B \<longrightarrow>
                  dispatch GET_tasks req' now' (Ready d2)
                    = (Response (JObj [(''success'', JBool True),
                           (''tasks'', JList (map task_list_item rows)),
                           (''count'', JInt (int (length rows)))]) 200, Ready d2))))"
proof (intro impI)
  assume a: "distinct (map t_id (tasks d)) \<and> A \<noteq> B \<and> authenticated_as req now A
   \<and> json_body req = Some data \<and> map_of data ''title'' = Some title \<and> title \<noteq> []"
  let ?new = "new_task A data title now d"
  let ?created = "d\<lparr>tasks := tasks d @ [?new], tasks_seq := t_id ?new\<rparr>"
  from a have created: "dispatch POST_tasks req now (Ready d)
        = (Response (JObj [(''success'', JBool True),
               (''message'', JStr ''Task created successfully''),
               (''task'', task_dict ?new)]) 201, Ready ?created)"
    using create_task_Ready [of req data title A now d]
    by (simp add: dispatch_def token_required_authenticated [of req now A])
  have owner: "t_user_id ?new = A"
    by (simp add: new_task_def)
  have "t_id ?new \<notin> t_id ` set (tasks d)"
    using next_rowid_fresh [of _ "map t_id (tasks d)" "tasks_seq d"]
    by (fastforce simp: new_task_def)
  with a have d1: "distinct (map t_id (tasks ?created))"
    by simp
  have later: "\<exists>d2 rows.
            serve calls (Ready ?created) = Ready d2
            \<and> ?new \<in> set (tasks d2)
            \<and> set rows = {t \<in> set (tasks d2). t_user_id t = B}
            \<and> ?new \<notin> set rows
            \<and> t_id ?new \<notin> t_id ` set rows
            \<and> (\<forall>req' now'. authenticated_as req' now' B \<longrightarrow>
                  dispatch GET_tasks req' now' (Ready d2)
                    = (Response (JObj [(''success'', JBool True),
                           (''tasks'', JList (map task_list_item rows)),
                           (''count'', JInt (int (length rows)))]) 200, Ready d2))" for calls
  proof -
    from serve_tasks [OF d1, of calls] obtain d2 more where
      d2: "serve calls (Ready ?created) = Ready d2" "distinct (map t_id (tasks d2))"
        "tasks d2 = tasks ?created @ more"
      by blast
    let ?rows = "sort_key (\<lambda>t. - t_created_at t) (filter (\<lambda>t. t_user_id t = B) (tasks d2))"
    from d2(3) have mem: "?new \<in> set (tasks d2)"
      by simp
    have rows: "set ?rows = {t \<in> set (tasks d2). t_user_id t = B}"
      by auto
    from a owner have notin: "?new \<notin> set ?rows"
      by auto
    have ids: "t_id ?new \<notin> t_id ` set ?rows"
    proof
      assume "t_id ?new \<in> t_id ` set ?rows"
      then obtain t where t: "t \<in> set (tasks d2)" "t_user_id t = B" "t_id t = t_id ?new"
        by auto
      from d2(2) have "inj_on t_id (set (tasks d2))"
        by (simp add: distinct_map)
      with t mem have "t = ?new"
        by (auto dest: inj_onD)
      with t owner a show False
        by simp
    qed
    have listing: "\<forall>req' now'. authenticated_as req' now' B \<longrightarrow>
        dispatch GET_tasks req' now' (Ready d2)
          = (Response (JObj [(''success'', JBool True),
                 (''tasks'', JList (map task_list_item ?rows)),
                 (''count'', JInt (int (length ?rows)))]) 200, Ready d2)"
      by (simp add: dispatch_def token_required_authenticated [where uid = B] get_tasks_Ready)
    from d2(1) mem rows notin ids listing show ?thesis
      by blast
  qed
  from created owner later show "\<exists>task d1.
      dispatch POST_tasks req now (Ready d)
        = (Response (JObj [(''success'', JBool True),
               (''message'', JStr ''Task created successfully''),
               (''task'', task_dict task)]) 201, Ready d1)
      \<and> tasks d1 = tasks d @ [task] \<and> t_user_id task = A
      \<and> (\<forall>calls. \<exists>d2 rows.
            serve calls (Ready d1) = Ready d2
            \<and> task \<in> set (tasks d2)
            \<and> set rows = {t \<in> set (tasks d2). t_user_id t = B}
            \<and> task \<notin> set rows
            \<and> t_id task \<notin> t_id ` set rows
            \<and> (\<forall>req' now'. authenticated_as req' now' B \<longrightarrow>
                  dispatch GET_tasks req' now' (Ready d2)
                    = (Response (JObj [(''success'', JBool True),
                           (''tasks'', JList (map task_list_item rows)),
                           (''count'', JInt (int (length rows)))]) 200, Ready d2)))"
    by (intro exI [where x = "?new"] exI [where x = "?created"]) simp
qed


text \<open>
  User 1 creates a task in the example database; user 2 creates one of their own, user 1
  lists, a third user registers; then user 2 lists.
\<close>

theorem tasks_isolated_witness:
  "\<exists>task d1.
      dispatch POST_tasks
          \<lparr>authorization = Some (''Bearer '' @ issue_token 1 4000),
            json_body = Some [(''title'', ''secret plan'')]\<rparr> 5000 (Ready db_example)
        = (Response (JObj [(''success'', JBool True),
               (''message'', JStr ''Task created successfully''),
               (''task'', task_dict task)]) 201, Ready d1)
      \<and> tasks d1 = tasks db_example @ [task] \<and> t_user_id task = 1
      \<and> (\<exists>d2 rows.
            serve [(POST_tasks, \<lparr>authorization = Some (''Bearer '' @ issue_token 2 4000),
                       json_body = Some [(''title'', ''my own'')]\<rparr>, 5100),
                   (GET_tasks, \<lparr>authorization = Some (''Bearer '' @ issue_token 1 4000),
                       json_body = None\<rparr>, 5200),
                   (POST_auth_register, body [(''username'', ''carol''), (''email'', ''c@x.com''),
                       (''password'', ''secret'')], 5300)] (Ready d1) = Ready d2
            \<and> task \<in> set (tasks d2)
            \<and> set rows = {t \<in> set (tasks d2). t_user_id t = 2}
            \<and> task \<notin> set rows
            \<and> t_id task \<notin> t_id ` set rows
            \<and> dispatch GET_tasks
                  \<lparr>authorization = Some (''Bearer '' @ issue_token 2 4000), json_body = None\<rparr>
                  5400 (Ready d2)
                = (Response (JObj [(''success'', JBool True),
                       (''tasks'', JList (map task_list_item rows)),
                       (''count'', JInt (int (length rows)))]) 200, Ready d2))"
proof -
  let ?reqA = "\<lparr>authorization = Some (''Bearer '' @ issue_token 1 4000),
            json_body = Some [(''title'', ''secret plan'')]\<rparr>"
  let ?reqB = "\<lparr>authorization = Some (''Bearer '' @ issue_token 2 4000), json_body = None\<rparr>"
  let ?calls = "[(POST_tasks, \<lparr>authorization = Some (''Bearer '' @ issue_token 2 4000),
                       json_body = Some [(''title'', ''my own'')]\<rparr>, 5100),
                   (GET_tasks, \<lparr>authorization = Some (''Bearer '' @ issue_token 1 4000),
                       json_body = None\<rparr>, 5200),
                   (POST_auth_register, body [(''username'', ''carol''), (''email'', ''c@x.com''),
                       (''password'', ''secret'')], 5300)]"
  have ids: "distinct (map t_id (tasks db_example))"
    by (simp add: db_example_def task_row_def)
  have authA: "authenticated_as ?reqA 5000 1"
    by (rule authenticated_as_issue_token) simp
  have authB: "authenticated_as ?reqB 5400 2"
    by (rule authenticated_as_issue_token) simp
  from tasks_isolated [where d = db_example and A = 1 and B = 2 and req = ?reqA and now = 5000
      and data = "[(''title'', ''secret plan'')]" and title = "''secret plan''"] ids authA
  obtain task d1 where
    c: "dispatch POST_tasks ?reqA 5000 (Ready db_example)
        = (Response (JObj [(''success'', JBool True),
               (''message'', JStr ''Task created successfully''),
               (''task'', task_dict task)]) 201, Ready d1)"
      "tasks d1 = tasks db_example @ [task]" "t_user_id task = 1"
    and later: "\<forall>calls. \<exists>d2 rows.
            serve calls (Ready d1) = Ready d2
            \<and> task \<in> set (tasks d2)
            \<and> set rows = {t \<in> set (tasks d2). t_user_id t = 2}
            \<and> task \<notin> set rows
            \<and> t_id task \<notin> t_id ` set rows
            \<and> (\<forall>req' now'. authenticated_as req' now' 2 \<longrightarrow>
                  dispatch GET_tasks req' now' (Ready d2)
                    = (Response (JObj [(''success'', JBool True),
                           (''tasks'', JList (map task_list_item rows)),
                           (''count'', JInt (int (length rows)))]) 200, Ready d2))"
    by auto
  from later [rule_format, of ?calls] obtain d2 rows where
    l: "serve ?calls (Ready d1) = Ready d2" "task \<in> set (tasks d2)"
      "set rows = {t \<in> set (tasks d2). t_user_id t = 2}" "task \<notin> set rows"
      "t_id task \<notin> t_id ` set rows"
    and listing: "\<forall>req' now'. authenticated_as req' now' 2 \<longrightarrow>
                  dispatch GET_tasks req' now' (Ready d2)
                    = (Response (JObj [(''success'', JBool True),
                           (''tasks'', JList (map task_list_item rows)),
                           (''count'', JInt (int (length rows)))]) 200, Ready d2)"
    by blast
  from listing authB have "dispatch GET_tasks ?reqB 5400 (Ready d2)
      = (Response (JObj [(''success'', JBool True),
             (''tasks'', JList (map task_list_item rows)),
             (''count'', JInt (int (length rows)))]) 200, Ready d2)"
    by blast
  with c l show ?thesis
    by blast
qed

end
